theory Spec2Isabelle
  imports Complex_Main
begin

section \<open>Data model of \<^verbatim>\<open>ext/qt/qtitem.cc\<close>\<close>

text \<open>
  A \<^verbatim>\<open>GstBuffer *\<close> is modelled by its identity. Reference counting is a heap effect of
  the library; every \<^verbatim>\<open>gst_buffer_ref\<close> and \<^verbatim>\<open>gst_buffer_unref\<close> the code
  performs is recorded, in order, in a log carried by the item.
\<close>

type_synonym GstBuffer = nat

datatype ref_event = Ref GstBuffer | Unref GstBuffer

text \<open>The four fields of \<^verbatim>\<open>GstVideoInfo\<close> the file reads (all \<^verbatim>\<open>gint\<close>).\<close>

record GstVideoInfo =
  vi_width :: int
  vi_height :: int
  vi_par_n :: int
  vi_par_d :: int

text \<open>
  \<^verbatim>\<open>GstCaps\<close> is a library type. The file only asks whether caps are fixed, whether two
  fixed caps are equal, and what \<^verbatim>\<open>gst_video_info_from_caps\<close> makes of them (nothing,
  when it returns \<^verbatim>\<open>FALSE\<close>); \<open>caps_other\<close> stands for the content of the caps that
  the video info does not show.
\<close>

record GstCaps =
  caps_is_fixed :: bool
  caps_video_info :: "GstVideoInfo option"
  caps_other :: nat

record GstVideoRectangle =
  rect_x :: int
  rect_y :: int
  rect_w :: int
  rect_h :: int

text \<open>\<^verbatim>\<open>QRectF\<close>, \<^verbatim>\<open>QSizeF\<close> and \<^verbatim>\<open>QPointF\<close> hold doubles, idealised as reals.\<close>

record QRectF =
  qrect_x :: real
  qrect_y :: real
  qrect_width :: real
  qrect_height :: real

type_synonym QSizeF = "real \<times> real"
type_synonym QPointF = "real \<times> real"

text \<open>
  The item: the fields of \<^verbatim>\<open>struct _QtGLVideoItemPrivate\<close> (the mutex apart), then the
  members of \<^verbatim>\<open>QtGLVideoItem\<close> and of its \<^verbatim>\<open>QQuickItem\<close> base that the file writes:
  the implicit size, the number of queued \<^verbatim>\<open>update\<close> requests, and the log of reference
  count events.
\<close>

record QtGLVideoItem =
  force_aspect_ratio :: bool
  par_n :: int
  par_d :: int
  sink :: "nat option"
  display_width :: int
  display_height :: int
  negotiated :: bool
  buffer :: "GstBuffer option"
  caps :: "GstCaps option"
  v_info :: GstVideoInfo
  initted :: bool
  display :: "nat option"
  qt_context :: "nat option"
  other_context :: "nat option"
  gl_context :: "nat option"
  bound_buffers :: "GstBuffer list"
  potentially_unbound_buffers :: "GstBuffer list"
  m_openGlContextInitialized :: bool
  implicitWidth :: int
  implicitHeight :: int
  update_requests :: nat
  ref_log :: "ref_event list"

text \<open>
  \<^verbatim>\<open>QtGLVideoItemInterface\<close>: the proxy holds the pointer \<^verbatim>\<open>qt_item\<close>, which
  \<^verbatim>\<open>invalidateRef\<close> sets to \<^verbatim>\<open>NULL\<close>. \<open>item\<close> is the state of the item object
  itself, which the proxy reaches only through a non-null pointer.
\<close>

datatype item_ptr = NULL | ItemPtr

record QtGLVideoItemInterface =
  qt_item :: item_ptr
  item :: QtGLVideoItem

text \<open>The state \<^verbatim>\<open>g_new0\<close> and the constructor leave.\<close>

definition DEFAULT_FORCE_ASPECT_RATIO :: bool where
  "DEFAULT_FORCE_ASPECT_RATIO = True"

definition DEFAULT_PAR_N :: int where
  "DEFAULT_PAR_N = 0"

definition DEFAULT_PAR_D :: int where
  "DEFAULT_PAR_D = 1"

definition new_QtGLVideoItem :: "nat option \<Rightarrow> QtGLVideoItem" where
  "new_QtGLVideoItem dpy =
     \<lparr> force_aspect_ratio = DEFAULT_FORCE_ASPECT_RATIO,
       par_n = DEFAULT_PAR_N, par_d = DEFAULT_PAR_D,
       sink = None,
       display_width = 0, display_height = 0,
       negotiated = False, buffer = None, caps = None,
       v_info = \<lparr> vi_width = 0, vi_height = 0, vi_par_n = 0, vi_par_d = 0 \<rparr>,
       initted = False,
       display = dpy, qt_context = None, other_context = None, gl_context = None,
       bound_buffers = [], potentially_unbound_buffers = [],
       m_openGlContextInitialized = False,
       implicitWidth = 0, implicitHeight = 0,
       update_requests = 0,
       ref_log = [] \<rparr>"

definition new_QtGLVideoItemInterface :: "nat option \<Rightarrow> QtGLVideoItemInterface" where
  "new_QtGLVideoItemInterface dpy = \<lparr> qt_item = ItemPtr, item = new_QtGLVideoItem dpy \<rparr>"

section \<open>Library functions the file calls\<close>

text \<open>
  \<^verbatim>\<open>gst_buffer_replace (&old, new)\<close>: nothing when both are the same buffer; otherwise
  the new buffer is referenced, the pointer swapped and the old buffer unreferenced.
  The function below gives the reference count events; the caller stores \<open>new\<close>.
\<close>

definition gst_buffer_replace :: "GstBuffer option \<Rightarrow> GstBuffer option \<Rightarrow> ref_event list" where
  "gst_buffer_replace old new =
     (if old = new then []
      else (case new of None \<Rightarrow> [] | Some b \<Rightarrow> [Ref b]) @
           (case old of None \<Rightarrow> [] | Some b \<Rightarrow> [Unref b]))"

text \<open>
  The loop \<^verbatim>\<open>while ((tmp = g_queue_pop_head (q))) gst_buffer_unref (tmp);\<close>:
  it returns the queue it leaves and the extended log.
\<close>

fun unref_queue :: "GstBuffer list \<Rightarrow> ref_event list \<Rightarrow> GstBuffer list \<times> ref_event list" where
  "unref_queue [] lg = ([], lg)"
| "unref_queue (tmp_buffer # q) lg = unref_queue q (lg @ [Unref tmp_buffer])"

text \<open>
  The loop \<^verbatim>\<open>while ((tmp = g_queue_pop_head (src))) g_queue_push_tail (dst, tmp);\<close>:
  it returns both queues.
\<close>

fun move_queue :: "GstBuffer list \<Rightarrow> GstBuffer list \<Rightarrow> GstBuffer list \<times> GstBuffer list" where
  "move_queue [] dst = ([], dst)"
| "move_queue (tmp_buffer # src) dst = move_queue src (dst @ [tmp_buffer])"

section \<open>The texture object\<close>

text \<open>
  Modelled from the spec: \<^verbatim>\<open>GstQSGTexture\<close> (\<^verbatim>\<open>gstqsgtexture.cc\<close> is not among the
  sources). The spec's renderable texture object holds the frame attached to it, with a
  reference of its own "for the duration of texture attachment", and knows "whether that
  frame was actually bound to a live texture". \<open>tex_getBuffer\<close> hands out the attached
  frame with a duplicate reference and the flag; \<open>tex_setBuffer\<close> attaches a frame
  (a frame newly attached has not been bound); \<open>tex_bind\<close> is the renderer binding the
  attached frame's texture.
\<close>

record GstQSGTexture =
  tex_buffer :: "GstBuffer option"
  tex_was_bound :: bool
  tex_caps :: "GstCaps option"

definition new_GstQSGTexture :: GstQSGTexture where
  "new_GstQSGTexture = \<lparr> tex_buffer = None, tex_was_bound = False, tex_caps = None \<rparr>"

definition tex_getBuffer :: "GstQSGTexture \<Rightarrow> GstBuffer option \<times> bool \<times> ref_event list" where
  "tex_getBuffer t =
     (tex_buffer t, tex_was_bound t, (case tex_buffer t of None \<Rightarrow> [] | Some b \<Rightarrow> [Ref b]))"

definition tex_setBuffer :: "GstQSGTexture \<Rightarrow> GstBuffer option \<Rightarrow> GstQSGTexture \<times> ref_event list" where
  "tex_setBuffer t b =
     (if tex_buffer t = b then (t, [])
      else (t\<lparr>tex_buffer := b, tex_was_bound := False\<rparr>, gst_buffer_replace (tex_buffer t) b))"

definition tex_setCaps :: "GstQSGTexture \<Rightarrow> GstCaps option \<Rightarrow> GstQSGTexture" where
  "tex_setCaps t c = t\<lparr>tex_caps := c\<rparr>"

definition tex_bind :: "GstQSGTexture \<Rightarrow> GstQSGTexture" where
  "tex_bind t = (if tex_buffer t = None then t else t\<lparr>tex_was_bound := True\<rparr>)"

record QSGSimpleTextureNode =
  node_texture :: GstQSGTexture
  node_rect :: GstVideoRectangle
  node_dirty :: bool

definition new_QSGSimpleTextureNode :: QSGSimpleTextureNode where
  "new_QSGSimpleTextureNode =
     \<lparr> node_texture = new_GstQSGTexture,
       node_rect = \<lparr> rect_x = 0, rect_y = 0, rect_w = 0, rect_h = 0 \<rparr>,
       node_dirty = False \<rparr>"

text \<open>The renderer draws the node between two paints and binds its texture.\<close>

definition node_bind :: "QSGSimpleTextureNode \<Rightarrow> QSGSimpleTextureNode" where
  "node_bind n = n\<lparr>node_texture := tex_bind (node_texture n)\<rparr>"

section \<open>The tracker of bound buffers\<close>

text \<open>
  Lines 259 to 288 of \<^verbatim>\<open>QtGLVideoItem::updatePaintNode\<close>, the spec's \<open>exchange\<close>:
  what happens to the buffer the texture held (\<open>old_buffer\<close>, with the reference
  \<open>getBuffer\<close> added) before the current buffer is attached.
\<close>

definition exchange :: "QtGLVideoItem \<Rightarrow> GstBuffer option \<Rightarrow> bool \<Rightarrow> QtGLVideoItem" where
  "exchange it old_buffer was_bound =
     (case old_buffer of
        None \<Rightarrow> it
      | Some ob \<Rightarrow>
          if Some ob = buffer it then it\<lparr>ref_log := ref_log it @ [Unref ob]\<rparr>
          else if \<not> was_bound then it\<lparr>ref_log := ref_log it @ [Unref ob]\<rparr>
          else
            let (pu, lg) = unref_queue (potentially_unbound_buffers it) (ref_log it);
                (bb, pu') = move_queue (bound_buffers it) pu
            in it\<lparr>potentially_unbound_buffers := pu',
                  bound_buffers := bb @ [ob],
                  ref_log := lg\<rparr>)"

text \<open>
  \<^verbatim>\<open>gst_video_sink_center_rect (src, dst, &result, TRUE)\<close> is a library function working
  in floating point; the embedding takes it as a parameter.
\<close>

type_synonym center_rect_fn = "GstVideoRectangle \<Rightarrow> GstVideoRectangle \<Rightarrow> GstVideoRectangle"

text \<open>
  The conversion of a double to \<^verbatim>\<open>gint\<close> on assignment truncates towards zero
  (values beyond the range of \<^verbatim>\<open>gint\<close> are outside the model).
\<close>

definition double_to_gint :: "real \<Rightarrow> int" where
  "double_to_gint r = (if 0 \<le> r then \<lfloor>r\<rfloor> else \<lceil>r\<rceil>)"

text \<open>
  \<^verbatim>\<open>QtGLVideoItem::updatePaintNode\<close>, with the old node and the bounding rectangle the
  scene graph hands in. The activation of the GL context has no part in the state below
  and is left out; \<^verbatim>\<open>src.x\<close> and \<^verbatim>\<open>src.y\<close>, which the code leaves unset and the
  library does not read when scaling, are zero.
\<close>

definition updatePaintNode ::
  "center_rect_fn \<Rightarrow> QtGLVideoItem \<Rightarrow> QSGSimpleTextureNode option \<Rightarrow> QRectF
     \<Rightarrow> QSGSimpleTextureNode option \<times> QtGLVideoItem" where
  "updatePaintNode center_rect it oldNode boundingRect =
     (if \<not> m_openGlContextInitialized it then (oldNode, it)
      else if caps it = None then (None, it)
      else
        let texNode = (case oldNode of None \<Rightarrow> new_QSGSimpleTextureNode | Some n \<Rightarrow> n);
            tex = node_texture texNode;
            (old_buffer, was_bound, got) = tex_getBuffer tex;
            it1 = exchange (it\<lparr>ref_log := ref_log it @ got\<rparr>) old_buffer was_bound;
            tex1 = tex_setCaps tex (caps it1);
            (tex2, repl) = tex_setBuffer tex1 (buffer it1);
            it2 = it1\<lparr>ref_log := ref_log it1 @ repl\<rparr>;
            bx = double_to_gint (qrect_x boundingRect);
            by = double_to_gint (qrect_y boundingRect);
            bw = double_to_gint (qrect_width boundingRect);
            bh = double_to_gint (qrect_height boundingRect);
            result =
              (if force_aspect_ratio it2
               then center_rect
                      \<lparr> rect_x = 0, rect_y = 0,
                        rect_w = display_width it2, rect_h = display_height it2 \<rparr>
                      \<lparr> rect_x = bx, rect_y = by, rect_w = bw, rect_h = bh \<rparr>
               else \<lparr> rect_x = bx, rect_y = by, rect_w = bw, rect_h = bh \<rparr>)
        in (Some (texNode\<lparr>node_texture := tex2, node_rect := result, node_dirty := True\<rparr>),
            it2))"

section \<open>Renegotiation and delivery\<close>

text \<open>\<^verbatim>\<open>_reset\<close>: clears the current buffer and the caps and drains both queues.\<close>

definition reset :: "QtGLVideoItem \<Rightarrow> QtGLVideoItem" where
  "reset qt_item0 =
     (let lg0 = ref_log qt_item0 @ gst_buffer_replace (buffer qt_item0) None;
          (pu, lg1) = unref_queue (potentially_unbound_buffers qt_item0) lg0;
          (bb, lg2) = unref_queue (bound_buffers qt_item0) lg1
      in qt_item0\<lparr>buffer := None, caps := None,
                   negotiated := False, initted := False,
                   potentially_unbound_buffers := pu, bound_buffers := bb,
                   ref_log := lg2\<rparr>)"

definition setSink :: "QtGLVideoItemInterface \<Rightarrow> nat option \<Rightarrow> QtGLVideoItemInterface" where
  "setSink w snk =
     (if qt_item w = NULL then w
      else w\<lparr>item := (item w)\<lparr>sink := snk\<rparr>\<rparr>)"

text \<open>
  \<^verbatim>\<open>setBuffer\<close> returns nothing; the outcome below tells its three paths apart (the
  first two log a warning and drop the buffer).
\<close>

datatype deliver_outcome = Detached | NotNegotiated | Delivered

definition setBuffer ::
  "QtGLVideoItemInterface \<Rightarrow> GstBuffer \<Rightarrow> deliver_outcome \<times> QtGLVideoItemInterface" where
  "setBuffer w b =
     (if qt_item w = NULL then (Detached, w)
      else if \<not> negotiated (item w) then (NotNegotiated, w)
      else (Delivered,
            w\<lparr>item := (item w)\<lparr>buffer := Some b,
                                 update_requests := Suc (update_requests (item w)),
                                 ref_log := ref_log (item w) @
                                   gst_buffer_replace (buffer (item w)) (Some b)\<rparr>\<rparr>))"

subsection \<open>Integer conversions of C\<close>

definition to_guint :: "int \<Rightarrow> int" where
  "to_guint v = v mod 2 ^ 32"

definition to_gint :: "int \<Rightarrow> int" where
  "to_gint v = (v + 2 ^ 31) mod 2 ^ 32 - 2 ^ 31"

definition to_guint64 :: "int \<Rightarrow> int" where
  "to_guint64 v = v mod 2 ^ 64"

definition G_MAXINT :: int where
  "G_MAXINT = 2 ^ 31 - 1"

definition G_MAXUINT64 :: int where
  "G_MAXUINT64 = 2 ^ 64 - 1"

text \<open>
  \<^verbatim>\<open>gst_util_uint64_scale_int (val, num, denom)\<close> of the library: \<open>val * num / denom\<close>
  without intermediate overflow, \<^verbatim>\<open>G_MAXUINT64\<close> when the result does not fit or an
  argument check fails (\<open>num\<close> negative, \<open>denom\<close> not positive).
\<close>

definition gst_util_uint64_scale_int :: "int \<Rightarrow> int \<Rightarrow> int \<Rightarrow> int" where
  "gst_util_uint64_scale_int val num denom =
     (if denom \<le> 0 \<or> num < 0 then G_MAXUINT64
      else if val * num div denom > G_MAXUINT64 then G_MAXUINT64
      else val * num div denom)"

subsection \<open>\<^verbatim>\<open>_calculate_par\<close>\<close>

text \<open>
  \<^verbatim>\<open>gst_video_calculate_display_ratio\<close> is a library function; the embedding takes it
  as a parameter: from the video width and height, the video pixel aspect ratio and the
  display pixel aspect ratio to the display ratio, or nothing when it returns
  \<^verbatim>\<open>FALSE\<close>.
\<close>

type_synonym display_ratio_fn =
  "int \<Rightarrow> int \<Rightarrow> int \<Rightarrow> int \<Rightarrow> int \<Rightarrow> int \<Rightarrow> (int \<times> int) option"

text \<open>The remainder operator of C traps on a zero divisor.\<close>

datatype fault = DivisionByZero

definition calculate_par ::
  "display_ratio_fn \<Rightarrow> QtGLVideoItem \<Rightarrow> GstVideoInfo \<Rightarrow> fault + (bool \<times> QtGLVideoItem)" where
  "calculate_par display_ratio widget info =
     (let width = vi_width info;
          height = vi_height info;
          par_n0 = vi_par_n info;
          par_d0 = vi_par_d info;
          par_n1 = (if par_n0 = 0 then 1 else par_n0);
          (display_par_n, display_par_d) =
            (if par_n widget \<noteq> 0 \<and> par_d widget \<noteq> 0
             then (par_n widget, par_d widget) else (1, 1))
      in case display_ratio (to_guint width) (to_guint height)
                (to_guint par_n1) (to_guint par_d0)
                (to_guint display_par_n) (to_guint display_par_d) of
           None \<Rightarrow> Inr (False, widget)
         | Some (n, d) \<Rightarrow>
             let display_ratio_num = to_guint n;
                 display_ratio_den = to_guint d;
                 widget1 = widget\<lparr>implicitWidth := width, implicitHeight := height\<rparr>
             in if display_ratio_den = 0 then Inl DivisionByZero
                else if to_guint height mod display_ratio_den = 0 then
                  Inr (True, widget1\<lparr>
                    display_width := to_gint (to_guint (gst_util_uint64_scale_int
                      (to_guint64 height) (to_gint display_ratio_num) (to_gint display_ratio_den))),
                    display_height := height\<rparr>)
                else if display_ratio_num = 0 then Inl DivisionByZero
                else if to_guint width mod display_ratio_num = 0 then
                  Inr (True, widget1\<lparr>
                    display_width := width,
                    display_height := to_gint (to_guint (gst_util_uint64_scale_int
                      (to_guint64 width) (to_gint display_ratio_den) (to_gint display_ratio_num)))\<rparr>)
                else
                  Inr (True, widget1\<lparr>
                    display_width := to_gint (to_guint (gst_util_uint64_scale_int
                      (to_guint64 height) (to_gint display_ratio_num) (to_gint display_ratio_den))),
                    display_height := height\<rparr>))"

subsection \<open>\<^verbatim>\<open>QtGLVideoItemInterface::setCaps\<close>\<close>

definition setCaps ::
  "display_ratio_fn \<Rightarrow> QtGLVideoItemInterface \<Rightarrow> GstCaps
     \<Rightarrow> fault + (bool \<times> QtGLVideoItemInterface)" where
  "setCaps display_ratio w c =
     (if \<not> caps_is_fixed c then Inr (False, w)
      else if qt_item w = NULL then Inr (False, w)
      else if caps (item w) \<noteq> None \<and> caps (item w) = Some c then Inr (True, w)
      else case caps_video_info c of
             None \<Rightarrow> Inr (False, w)
           | Some v_info' \<Rightarrow>
               (case calculate_par display_ratio ((reset (item w))\<lparr>caps := Some c\<rparr>) v_info' of
                  Inl f \<Rightarrow> Inl f
                | Inr (ok, it) \<Rightarrow>
                    if \<not> ok then Inr (False, w\<lparr>item := it\<rparr>)
                    else Inr (True, w\<lparr>item := it\<lparr>v_info := v_info', negotiated := True\<rparr>\<rparr>)))"

subsection \<open>Queries and properties\<close>

definition getQtContext :: "QtGLVideoItemInterface \<Rightarrow> nat option" where
  "getQtContext w =
     (if qt_item w = NULL \<or> other_context (item w) = None then None
      else other_context (item w))"

definition getContext :: "QtGLVideoItemInterface \<Rightarrow> nat option" where
  "getContext w =
     (if qt_item w = NULL \<or> gl_context (item w) = None then None
      else gl_context (item w))"

definition getDisplay :: "QtGLVideoItemInterface \<Rightarrow> nat option" where
  "getDisplay w =
     (if qt_item w = NULL \<or> display (item w) = None then None
      else display (item w))"

definition setDAR :: "QtGLVideoItemInterface \<Rightarrow> int \<Rightarrow> int \<Rightarrow> QtGLVideoItemInterface" where
  "setDAR w num den =
     (if qt_item w = NULL then w
      else w\<lparr>item := (item w)\<lparr>par_n := num, par_d := den\<rparr>\<rparr>)"

definition getDAR :: "QtGLVideoItemInterface \<Rightarrow> (int \<times> int) option" where
  "getDAR w =
     (if qt_item w = NULL then None
      else Some (par_n (item w), par_d (item w)))"

definition setForceAspectRatio :: "QtGLVideoItemInterface \<Rightarrow> bool \<Rightarrow> QtGLVideoItemInterface" where
  "setForceAspectRatio w far =
     (if qt_item w = NULL then w
      else w\<lparr>item := (item w)\<lparr>force_aspect_ratio := far\<rparr>\<rparr>)"

definition getForceAspectRatio :: "QtGLVideoItemInterface \<Rightarrow> bool" where
  "getForceAspectRatio w =
     (if qt_item w = NULL then False
      else force_aspect_ratio (item w))"

definition invalidateRef :: "QtGLVideoItemInterface \<Rightarrow> QtGLVideoItemInterface" where
  "invalidateRef w = w\<lparr>qt_item := NULL\<rparr>"

section \<open>Mapping a point to the stream\<close>

definition fitStreamToAllocatedSize ::
  "center_rect_fn \<Rightarrow> QtGLVideoItem \<Rightarrow> QSizeF \<Rightarrow> GstVideoRectangle" where
  "fitStreamToAllocatedSize center_rect it sz =
     (if force_aspect_ratio it
      then center_rect
             \<lparr> rect_x = 0, rect_y = 0, rect_w = display_width it, rect_h = display_height it \<rparr>
             \<lparr> rect_x = 0, rect_y = 0,
               rect_w = double_to_gint (fst sz), rect_h = double_to_gint (snd sz) \<rparr>
      else \<lparr> rect_x = 0, rect_y = 0,
             rect_w = double_to_gint (fst sz), rect_h = double_to_gint (snd sz) \<rparr>)"

definition CLAMP :: "real \<Rightarrow> real \<Rightarrow> real \<Rightarrow> real" where
  "CLAMP x low high = (if x > high then high else if x < low then low else x)"

definition mapPointToStreamSize ::
  "center_rect_fn \<Rightarrow> QtGLVideoItem \<Rightarrow> QSizeF \<Rightarrow> QPointF \<Rightarrow> QPointF" where
  "mapPointToStreamSize center_rect it sz pos =
     (let result = fitStreamToAllocatedSize center_rect it sz;
          stream_width = real_of_int (vi_width (v_info it));
          stream_height = real_of_int (vi_height (v_info it));
          x = fst pos;
          y = snd pos;
          stream_x0 =
            (if rect_w result > 0
             then (x - real_of_int (rect_x result)) / real_of_int (rect_w result) * stream_width
             else 0);
          stream_x = CLAMP stream_x0 0 stream_width;
          stream_y0 =
            (if rect_h result > 0
             then (y - real_of_int (rect_y result)) / real_of_int (rect_h result) * stream_height
             else 0);
          stream_y = CLAMP stream_y0 0 stream_height
      in (stream_x, stream_y))"

section \<open>Sequences of calls\<close>

datatype call =
    SetSink "nat option"
  | SetBuffer GstBuffer
  | SetCaps GstCaps
  | SetDAR int int
  | SetForceAspectRatio bool
  | InvalidateRef
  | UpdatePaintNode "QSGSimpleTextureNode option" QRectF

fun producer_call :: "call \<Rightarrow> bool" where
  "producer_call (UpdatePaintNode n r) = False"
| "producer_call InvalidateRef = False"
| "producer_call c = True"

fun step ::
  "display_ratio_fn \<Rightarrow> center_rect_fn \<Rightarrow> call \<Rightarrow> QtGLVideoItemInterface
     \<Rightarrow> fault + QtGLVideoItemInterface" where
  "step dr cr (SetSink snk) w = Inr (setSink w snk)"
| "step dr cr (SetBuffer b) w = Inr (snd (setBuffer w b))"
| "step dr cr (SetCaps c) w =
     (case setCaps dr w c of Inl f \<Rightarrow> Inl f | Inr (ok, w') \<Rightarrow> Inr w')"
| "step dr cr (SetDAR num den) w = Inr (setDAR w num den)"
| "step dr cr (SetForceAspectRatio far) w = Inr (setForceAspectRatio w far)"
| "step dr cr InvalidateRef w = Inr (invalidateRef w)"
| "step dr cr (UpdatePaintNode n r) w =
     Inr (w\<lparr>item := snd (updatePaintNode cr (item w) n r)\<rparr>)"

fun run ::
  "display_ratio_fn \<Rightarrow> center_rect_fn \<Rightarrow> call list \<Rightarrow> QtGLVideoItemInterface
     \<Rightarrow> fault + QtGLVideoItemInterface" where
  "run dr cr [] w = Inr w"
| "run dr cr (c # cs) w =
     (case step dr cr c w of Inl f \<Rightarrow> Inl f | Inr w' \<Rightarrow> run dr cr cs w')"

text \<open>Delivering a list of buffers, one \<^verbatim>\<open>setBuffer\<close> after the other.\<close>

fun deliver_all :: "QtGLVideoItemInterface \<Rightarrow> GstBuffer list \<Rightarrow> QtGLVideoItemInterface" where
  "deliver_all w [] = w"
| "deliver_all w (f # fs) = deliver_all (snd (setBuffer w f)) fs"

text \<open>
  One frame cycle as the two threads run it: the renderer draws the node of the last
  paint (binding its texture), the producer delivers \<open>f\<close>, and the next paint runs.
\<close>

definition frame_cycle ::
  "center_rect_fn \<Rightarrow> QRectF \<Rightarrow> GstBuffer
     \<Rightarrow> QSGSimpleTextureNode option \<times> QtGLVideoItemInterface
     \<Rightarrow> QSGSimpleTextureNode option \<times> QtGLVideoItemInterface" where
  "frame_cycle cr r f s =
     (let w1 = snd (setBuffer (snd s) f);
          (n', it') = updatePaintNode cr (item w1) (map_option node_bind (fst s)) r
      in (n', w1\<lparr>item := it'\<rparr>))"

text \<open>An attached, negotiated item whose GL context is initialised.\<close>

definition ready :: "QtGLVideoItemInterface \<Rightarrow> bool" where
  "ready w \<longleftrightarrow>
     qt_item w = ItemPtr \<and> negotiated (item w) \<and> caps (item w) \<noteq> None \<and>
     m_openGlContextInitialized (item w)"

section \<open>Reference models of two library functions\<close>

text \<open>
  \<^verbatim>\<open>gst_util_fraction_multiply\<close> and \<^verbatim>\<open>gst_video_calculate_display_ratio\<close> as the
  library documents them: the product of two fractions, reduced, or failure on a zero
  denominator or an overflow of \<^verbatim>\<open>gint\<close>; the display ratio is
  \<open>(width * par_n * display_par_d) / (height * par_d * display_par_n)\<close>.
\<close>

definition gst_util_fraction_multiply :: "int \<Rightarrow> int \<Rightarrow> int \<Rightarrow> int \<Rightarrow> (int \<times> int) option" where
  "gst_util_fraction_multiply a_n a_d b_n b_d =
     (if a_d = 0 \<or> b_d = 0 then None
      else if a_n = 0 \<or> b_n = 0 then Some (0, 1)
      else
        let g1 = gcd a_n a_d; a_n1 = a_n div g1; a_d1 = a_d div g1;
            g2 = gcd b_n b_d; b_n1 = b_n div g2; b_d1 = b_d div g2;
            g3 = gcd a_n1 b_d1; a_n2 = a_n1 div g3; b_d2 = b_d1 div g3;
            g4 = gcd a_d1 b_n1; a_d2 = a_d1 div g4; b_n2 = b_n1 div g4
        in if a_n2 \<noteq> 0 \<and> G_MAXINT div \<bar>a_n2\<bar> < \<bar>b_n2\<bar> then None
           else if G_MAXINT div \<bar>a_d2\<bar> < \<bar>b_d2\<bar> then None
           else
             let res_n = a_n2 * b_n2; res_d = a_d2 * b_d2; g = gcd res_n res_d
             in Some (res_n div g, res_d div g))"

definition gst_video_calculate_display_ratio :: display_ratio_fn where
  "gst_video_calculate_display_ratio video_width video_height video_par_n video_par_d
       display_par_n display_par_d =
     (case gst_util_fraction_multiply (to_gint video_width) (to_gint video_height)
             (to_gint video_par_n) (to_gint video_par_d) of
        None \<Rightarrow> None
      | Some (tmp_n, tmp_d) \<Rightarrow>
          (case gst_util_fraction_multiply tmp_n tmp_d
                  (to_gint display_par_d) (to_gint display_par_n) of
             None \<Rightarrow> None
           | Some (num, den) \<Rightarrow>
               if num > 0 \<and> den > 0 then Some (to_guint num, to_guint den) else None))"

text \<open>
  \<^verbatim>\<open>gst_video_sink_center_rect\<close> with scaling: the source rectangle scaled into the
  destination, keeping its ratio, centred. When a height is zero the library leaves
  the result untouched; the zero rectangle stands for it here.
\<close>

definition gst_video_sink_center_rect :: center_rect_fn where
  "gst_video_sink_center_rect src dst =
     (if rect_h src = 0 \<or> rect_h dst = 0
      then \<lparr> rect_x = 0, rect_y = 0, rect_w = 0, rect_h = 0 \<rparr>
      else
        let src_ratio = real_of_int (rect_w src) / real_of_int (rect_h src);
            dst_ratio = real_of_int (rect_w dst) / real_of_int (rect_h dst)
        in if src_ratio > dst_ratio then
             let rh = double_to_gint (real_of_int (rect_w dst) / src_ratio)
             in \<lparr> rect_x = rect_x dst, rect_y = rect_y dst + (rect_h dst - rh) div 2,
                  rect_w = rect_w dst, rect_h = rh \<rparr>
           else if src_ratio < dst_ratio then
             let rw = double_to_gint (real_of_int (rect_h dst) * src_ratio)
             in \<lparr> rect_x = rect_x dst + (rect_w dst - rw) div 2, rect_y = rect_y dst,
                  rect_w = rw, rect_h = rect_h dst \<rparr>
           else dst)"

section \<open>Example states\<close>

definition example_caps :: GstCaps where
  "example_caps =
     \<lparr> caps_is_fixed = True,
       caps_video_info = Some \<lparr> vi_width = 1920, vi_height = 1080, vi_par_n = 1, vi_par_d = 1 \<rparr>,
       caps_other = 0 \<rparr>"

text \<open>A 1920x1080 stream negotiated, buffer 1 delivered, the GL context initialised.\<close>

definition example_item :: QtGLVideoItem where
  "example_item =
     \<lparr> force_aspect_ratio = True, par_n = 0, par_d = 1, sink = None,
       display_width = 1920, display_height = 1080,
       negotiated = True, buffer = Some 1, caps = Some example_caps,
       v_info = \<lparr> vi_width = 1920, vi_height = 1080, vi_par_n = 1, vi_par_d = 1 \<rparr>,
       initted = False,
       display = Some 0, qt_context = Some 1, other_context = Some 2, gl_context = Some 3,
       bound_buffers = [], potentially_unbound_buffers = [],
       m_openGlContextInitialized = True,
       implicitWidth = 1920, implicitHeight = 1080,
       update_requests = 1,
       ref_log = [Ref 1] \<rparr>"

definition example_interface :: QtGLVideoItemInterface where
  "example_interface = \<lparr> qt_item = ItemPtr, item = example_item \<rparr>"

text \<open>The node of a paint that attached buffer 1.\<close>

definition example_node :: QSGSimpleTextureNode where
  "example_node =
     \<lparr> node_texture = \<lparr> tex_buffer = Some 1, tex_was_bound = False, tex_caps = Some example_caps \<rparr>,
       node_rect = \<lparr> rect_x = 0, rect_y = 175, rect_w = 800, rect_h = 450 \<rparr>,
       node_dirty = True \<rparr>"

definition example_rect :: QRectF where
  "example_rect = \<lparr> qrect_x = 0, qrect_y = 0, qrect_width = 800, qrect_height = 800 \<rparr>"

text \<open>An item that tracks buffers: buffer 4 current, 3 bound, 2 potentially unbound.\<close>

definition example_tracking :: QtGLVideoItemInterface where
  "example_tracking =
     \<lparr> qt_item = ItemPtr,
       item = example_item\<lparr>buffer := Some 4, bound_buffers := [3],
                           potentially_unbound_buffers := [2], ref_log := []\<rparr> \<rparr>"

text \<open>Fixed caps of a stream of height zero.\<close>

definition degenerate_caps :: GstCaps where
  "degenerate_caps =
     \<lparr> caps_is_fixed = True,
       caps_video_info = Some \<lparr> vi_width = 1920, vi_height = 0, vi_par_n = 1, vi_par_d = 1 \<rparr>,
       caps_other = 0 \<rparr>"

section \<open>Invariant of the current-frame slot\<close>

text \<open>An item that is not negotiated holds no buffer.\<close>

definition slot_inv :: "QtGLVideoItemInterface \<Rightarrow> bool" where
  "slot_inv w \<longleftrightarrow> negotiated (item w) \<or> buffer (item w) = None"

section \<open>The tracker: proofs\<close>

lemma unref_queue_eq: "unref_queue q lg = ([], lg @ map Unref q)"
  by (induction q arbitrary: lg) simp_all

lemma move_queue_eq: "move_queue src dst = ([], dst @ src)"
  by (induction src arbitrary: dst) simp_all

lemma exchange_same_or_unbound:
  "Some ob = buffer it \<or> \<not> was_bound \<Longrightarrow>
   exchange it (Some ob) was_bound = it\<lparr>ref_log := ref_log it @ [Unref ob]\<rparr>"
  by (auto simp: exchange_def)

lemma exchange_bound:
  "Some ob \<noteq> buffer it \<Longrightarrow> was_bound \<Longrightarrow>
   exchange it (Some ob) was_bound =
     it\<lparr>potentially_unbound_buffers := bound_buffers it,
        bound_buffers := [ob],
        ref_log := ref_log it @ map Unref (potentially_unbound_buffers it)\<rparr>"
  by (simp add: exchange_def unref_queue_eq move_queue_eq)

lemma exchange_keeps:
  "caps (exchange it old wb) = caps it"
  "buffer (exchange it old wb) = buffer it"
  "negotiated (exchange it old wb) = negotiated it"
  "m_openGlContextInitialized (exchange it old wb) = m_openGlContextInitialized it"
  by (simp_all add: exchange_def unref_queue_eq move_queue_eq split: option.splits)

lemma updatePaintNode_item:
  assumes "m_openGlContextInitialized it" "caps it \<noteq> None"
    and "tex_buffer (node_texture n) = Some ob"
  shows "snd (updatePaintNode cr it (Some n) r) =
    (let it1 = exchange (it\<lparr>ref_log := ref_log it @ [Ref ob]\<rparr>) (Some ob)
                 (tex_was_bound (node_texture n))
     in it1\<lparr>ref_log := ref_log it1 @
          (if Some ob = buffer it then [] else gst_buffer_replace (Some ob) (buffer it))\<rparr>)"
  using assms
  by (auto simp: updatePaintNode_def tex_getBuffer_def tex_setCaps_def tex_setBuffer_def
      Let_def exchange_keeps split: prod.splits)

lemma updatePaintNode_texture:
  assumes "m_openGlContextInitialized it" "caps it \<noteq> None"
  shows "\<exists>n'. fst (updatePaintNode cr it oldNode r) = Some n' \<and>
              tex_buffer (node_texture n') = buffer it"
  using assms
  by (cases oldNode)
     (auto simp: updatePaintNode_def tex_getBuffer_def tex_setCaps_def tex_setBuffer_def
        Let_def exchange_keeps new_QSGSimpleTextureNode_def new_GstQSGTexture_def
        split: prod.splits)

lemma setBuffer_delivered:
  assumes "qt_item w = ItemPtr" "negotiated (item w)"
  shows "setBuffer w f =
    (Delivered, w\<lparr>item := (item w)\<lparr>buffer := Some f,
                                 update_requests := Suc (update_requests (item w)),
                                 ref_log := ref_log (item w) @
                                   gst_buffer_replace (buffer (item w)) (Some f)\<rparr>\<rparr>)"
  using assms by (simp add: setBuffer_def)

text \<open>
  A cycle in which the texture's frame \<open>ob\<close> differs from the delivered frame \<open>f\<close>:
  the paint's exchange gets \<open>ob\<close> as a bound frame, releases the potentially unbound
  frames, moves the bound ones down and makes \<open>ob\<close> the bound one.
\<close>

lemma frame_cycle_bound:
  assumes rdy: "ready w"
    and tex: "tex_buffer (node_texture n) = Some ob"
    and neq: "ob \<noteq> f"
  shows "\<exists>n' w'. frame_cycle cr r f (Some n, w) = (Some n', w') \<and>
     tex_buffer (node_texture n') = Some f \<and> ready w' \<and>
     buffer (item w') = Some f \<and>
     potentially_unbound_buffers (item w') = bound_buffers (item w) \<and>
     bound_buffers (item w') = [ob] \<and>
     ref_log (item w') = ref_log (item w) @ gst_buffer_replace (buffer (item w)) (Some f) @
        [Ref ob] @ map Unref (potentially_unbound_buffers (item w)) @ [Ref f, Unref ob]"
proof -
  let ?w1 = "snd (setBuffer w f)"
  let ?it1 = "item ?w1"
  let ?nb = "node_bind n"
  have w1: "?w1 = w\<lparr>item := (item w)\<lparr>buffer := Some f,
                                 update_requests := Suc (update_requests (item w)),
                                 ref_log := ref_log (item w) @
                                   gst_buffer_replace (buffer (item w)) (Some f)\<rparr>\<rparr>"
    using rdy by (simp add: setBuffer_delivered ready_def)
  have it1: "m_openGlContextInitialized ?it1" "caps ?it1 \<noteq> None" "buffer ?it1 = Some f"
    using rdy by (simp_all add: w1 ready_def)
  have nb: "tex_buffer (node_texture ?nb) = Some ob" "tex_was_bound (node_texture ?nb)"
    using tex by (simp_all add: node_bind_def tex_bind_def)
  obtain n' where n': "fst (updatePaintNode cr ?it1 (Some ?nb) r) = Some n'"
      "tex_buffer (node_texture n') = buffer ?it1"
    using updatePaintNode_texture [OF it1(1,2)] by blast
  have ex: "exchange (?it1\<lparr>ref_log := ref_log ?it1 @ [Ref ob]\<rparr>) (Some ob) True =
     ?it1\<lparr>potentially_unbound_buffers := bound_buffers ?it1,
        bound_buffers := [ob],
        ref_log := ref_log ?it1 @ [Ref ob] @ map Unref (potentially_unbound_buffers ?it1)\<rparr>"
    using neq it1(3) by (simp add: exchange_bound)
  have it': "snd (updatePaintNode cr ?it1 (Some ?nb) r) =
     ?it1\<lparr>potentially_unbound_buffers := bound_buffers ?it1,
        bound_buffers := [ob],
        ref_log := ref_log ?it1 @ [Ref ob] @
          map Unref (potentially_unbound_buffers ?it1) @ [Ref f, Unref ob]\<rparr>"
    using neq it1(3)
    by (simp add: updatePaintNode_item [OF it1(1,2) nb(1)] nb(2) ex Let_def
        gst_buffer_replace_def)
  have fc: "frame_cycle cr r f (Some n, w) =
      (Some n', ?w1\<lparr>item := snd (updatePaintNode cr ?it1 (Some ?nb) r)\<rparr>)"
    using n'(1) by (auto simp: frame_cycle_def Let_def split: prod.splits)
  show ?thesis
    unfolding fc it' using rdy n'(2) it1(3) by (simp add: w1 ready_def)
qed

text \<open>
  C1 (two-generation-lag release). Take three consecutive paints whose exchanges receive
  three distinct frames \<open>F1\<close>, \<open>F2\<close>, \<open>F3\<close> in turn, each as the frame the texture held
  and had bound (the producer delivers \<open>F2\<close>, \<open>F3\<close> and a frame \<open>F4\<close> other than \<open>F3\<close>
  before the three paints). After the first exchange \<open>F1\<close> is the bound frame; after
  the second \<open>F1\<close> is potentially unbound and \<open>F2\<close> bound; after the third \<open>F2\<close> is
  the only potentially unbound frame, \<open>F3\<close> the only bound frame, and the third cycle
  has released \<open>F1\<close>: its reference count events are the slot and the texture passing
  from \<open>F3\<close> to \<open>F4\<close>, the duplicate reference to \<open>F3\<close>, and one \<open>Unref F1\<close>.
\<close>

theorem two_generation_lag_release:
  assumes rdy: "ready w0"
    and tex: "tex_buffer (node_texture n0) = Some F1"
    and frames: "distinct [F1, F2, F3]" "F4 \<noteq> F3"
    and s1: "s1 = frame_cycle cr r1 F2 (Some n0, w0)"
    and s2: "s2 = frame_cycle cr r2 F3 s1"
    and s3: "s3 = frame_cycle cr r3 F4 s2"
  shows "bound_buffers (item (snd s1)) = [F1] \<and>
         potentially_unbound_buffers (item (snd s2)) = [F1] \<and>
         bound_buffers (item (snd s2)) = [F2] \<and>
         potentially_unbound_buffers (item (snd s3)) = [F2] \<and>
         bound_buffers (item (snd s3)) = [F3] \<and>
         ref_log (item (snd s3)) =
           ref_log (item (snd s2)) @ [Ref F4, Unref F3, Ref F3, Unref F1, Ref F4, Unref F3]"
proof -
  from frames have neq: "F1 \<noteq> F2" "F2 \<noteq> F3" "F3 \<noteq> F4" by auto
  obtain n1 w1 where c1: "s1 = (Some n1, w1)" "tex_buffer (node_texture n1) = Some F2"
      "ready w1" "buffer (item w1) = Some F2" "bound_buffers (item w1) = [F1]"
    using frame_cycle_bound [OF rdy tex neq(1), of cr r1] s1 by auto
  obtain n2 w2 where c2: "s2 = (Some n2, w2)" "tex_buffer (node_texture n2) = Some F3"
      "ready w2" "buffer (item w2) = Some F3" "bound_buffers (item w2) = [F2]"
      "potentially_unbound_buffers (item w2) = [F1]"
    using frame_cycle_bound [OF c1(3) c1(2) neq(2), of cr r2] s2 c1(1,5) by auto
  obtain n3 w3 where c3: "s3 = (Some n3, w3)" "bound_buffers (item w3) = [F3]"
      "potentially_unbound_buffers (item w3) = [F2]"
      "ref_log (item w3) = ref_log (item w2) @ gst_buffer_replace (buffer (item w2)) (Some F4) @
        [Ref F3] @ map Unref (potentially_unbound_buffers (item w2)) @ [Ref F4, Unref F3]"
    using frame_cycle_bound [OF c2(3) c2(2) neq(3), of cr r3] s3 c2(1,5) by auto
  show ?thesis
    using c1 c2 c3 neq by (simp add: gst_buffer_replace_def)
qed

theorem two_generation_lag_release_witness:
  "ready example_interface \<and>
   tex_buffer (node_texture example_node) = Some 1 \<and>
   distinct [1, 2, 3 :: nat] \<and> (4 :: nat) \<noteq> 3 \<and>
   potentially_unbound_buffers (item (snd
     (frame_cycle gst_video_sink_center_rect example_rect 4
       (frame_cycle gst_video_sink_center_rect example_rect 3
         (frame_cycle gst_video_sink_center_rect example_rect 2
           (Some example_node, example_interface)))))) = [2] \<and>
   bound_buffers (item (snd
     (frame_cycle gst_video_sink_center_rect example_rect 4
       (frame_cycle gst_video_sink_center_rect example_rect 3
         (frame_cycle gst_video_sink_center_rect example_rect 2
           (Some example_node, example_interface)))))) = [3]"
proof -
  have h1: "ready example_interface"
    by (simp add: ready_def example_interface_def example_item_def)
  have h2: "tex_buffer (node_texture example_node) = Some 1"
    by (simp add: example_node_def)
  have h3: "distinct [1, 2, 3 :: nat]" and h4: "(4 :: nat) \<noteq> 3"
    by simp_all
  show ?thesis
    using h1 h2 h3 h4
      two_generation_lag_release [OF h1 h2 h3 h4 refl refl refl,
        of gst_video_sink_center_rect example_rect example_rect example_rect]
    by simp
qed

text \<open>
  C5 (the branches of the exchange that leave the tracker alone). In a paint whose
  texture held \<open>ob\<close>, when \<open>ob\<close> is the current buffer or was never bound, the exchange
  only drops the duplicate reference to \<open>ob\<close>, and the whole paint changes nothing of the
  item but the log of reference count events: both queues are as they were, and no
  frame of either queue is unreferenced.
\<close>

theorem exchange_noop_branches:
  assumes "m_openGlContextInitialized it" "caps it \<noteq> None"
    and "tex_buffer (node_texture n) = Some ob"
    and "buffer it = Some ob \<or> \<not> tex_was_bound (node_texture n)"
  shows "exchange it (Some ob) (tex_was_bound (node_texture n)) =
           it\<lparr>ref_log := ref_log it @ [Unref ob]\<rparr> \<and>
         snd (updatePaintNode cr it (Some n) r) =
           it\<lparr>ref_log := ref_log it @ [Ref ob, Unref ob] @
                (if Some ob = buffer it then [] else gst_buffer_replace (Some ob) (buffer it))\<rparr> \<and>
         bound_buffers (snd (updatePaintNode cr it (Some n) r)) = bound_buffers it \<and>
         potentially_unbound_buffers (snd (updatePaintNode cr it (Some n) r)) =
           potentially_unbound_buffers it"
proof -
  have same: "Some ob = buffer it \<or> \<not> tex_was_bound (node_texture n)"
    using assms(4) by auto
  have e1: "exchange it (Some ob) (tex_was_bound (node_texture n)) =
      it\<lparr>ref_log := ref_log it @ [Unref ob]\<rparr>"
    using same by (rule exchange_same_or_unbound)
  have e2: "exchange (it\<lparr>ref_log := ref_log it @ [Ref ob]\<rparr>) (Some ob)
        (tex_was_bound (node_texture n)) =
      it\<lparr>ref_log := ref_log it @ [Ref ob, Unref ob]\<rparr>"
    using same by (auto simp: exchange_def)
  have p: "snd (updatePaintNode cr it (Some n) r) =
      it\<lparr>ref_log := ref_log it @ [Ref ob, Unref ob] @
           (if Some ob = buffer it then [] else gst_buffer_replace (Some ob) (buffer it))\<rparr>"
    by (simp add: updatePaintNode_item [OF assms(1-3)] e2 Let_def)
  show ?thesis
    by (simp add: e1 p)
qed

theorem exchange_noop_branches_witness:
  "m_openGlContextInitialized example_item \<and> caps example_item \<noteq> None \<and>
   tex_buffer (node_texture example_node) = Some 1 \<and>
   (buffer example_item = Some 1 \<or> \<not> tex_was_bound (node_texture example_node)) \<and>
   snd (updatePaintNode gst_video_sink_center_rect example_item (Some example_node) example_rect) =
     example_item\<lparr>ref_log := [Ref 1, Ref 1, Unref 1]\<rparr>"
proof -
  have h1: "m_openGlContextInitialized example_item" and h2: "caps example_item \<noteq> None"
    by (simp_all add: example_item_def)
  have h3: "tex_buffer (node_texture example_node) = Some 1"
    by (simp add: example_node_def)
  have h4: "buffer example_item = Some 1 \<or> \<not> tex_was_bound (node_texture example_node)"
    by (simp add: example_item_def)
  have b: "buffer example_item = Some 1" and l: "ref_log example_item = [Ref 1]"
    by (simp_all add: example_item_def)
  show ?thesis
    using h1 h2 h3 h4
      exchange_noop_branches [OF h1 h2 h3 h4, of gst_video_sink_center_rect example_rect]
    by (simp add: b l)
qed

section \<open>Renegotiation, delivery and teardown: proofs\<close>

lemma reset_fields:
  "buffer (reset it) = None" "caps (reset it) = None" "negotiated (reset it) = False"
  "bound_buffers (reset it) = []" "potentially_unbound_buffers (reset it) = []"
  "ref_log (reset it) = ref_log it @ gst_buffer_replace (buffer it) None @
      map Unref (potentially_unbound_buffers it) @ map Unref (bound_buffers it)"
  "display_width (reset it) = display_width it" "display_height (reset it) = display_height it"
  "v_info (reset it) = v_info it"
  by (simp_all add: reset_def unref_queue_eq Let_def)

lemma calculate_par_keeps:
  assumes "calculate_par dr widget info = Inr (ok, it')"
  shows "buffer it' = buffer widget" "negotiated it' = negotiated widget"
    "bound_buffers it' = bound_buffers widget"
    "potentially_unbound_buffers it' = potentially_unbound_buffers widget"
    "ref_log it' = ref_log widget" "v_info it' = v_info widget"
  using assms
  by (auto simp: calculate_par_def Let_def split: option.splits prod.splits if_splits)

lemma calculate_par_fail_keeps:
  assumes "calculate_par dr widget info = Inr (False, it')"
  shows "it' = widget"
  using assms
  by (auto simp: calculate_par_def Let_def split: option.splits prod.splits if_splits)

lemma setCaps_slot_inv:
  assumes "setCaps dr w c = Inr (ok, w')" "slot_inv w"
  shows "slot_inv w'"
  using assms
  by (auto simp: setCaps_def slot_inv_def reset_fields split: if_splits option.splits sum.splits prod.splits dest!: calculate_par_keeps(1))

lemma updatePaintNode_keeps:
  "buffer (snd (updatePaintNode cr it n r)) = buffer it"
  "negotiated (snd (updatePaintNode cr it n r)) = negotiated it"
  by (simp_all add: updatePaintNode_def Let_def exchange_keeps split: prod.splits)

lemma step_slot_inv:
  assumes "step dr cr c w = Inr w'" "slot_inv w"
  shows "slot_inv w'"
proof (cases c)
  case (SetCaps x)
  then show ?thesis using assms setCaps_slot_inv
    by (auto split: sum.splits prod.splits)
next
  case (UpdatePaintNode n r)
  then show ?thesis using assms
    by (auto simp: slot_inv_def updatePaintNode_keeps)
qed (use assms in \<open>auto simp: slot_inv_def setSink_def setBuffer_def setDAR_def setForceAspectRatio_def invalidateRef_def split: if_splits\<close>)

lemma run_slot_inv:
  "run dr cr cs w = Inr w' \<Longrightarrow> slot_inv w \<Longrightarrow> slot_inv w'"
proof (induction cs arbitrary: w)
  case Nil
  then show ?case by simp
next
  case (Cons c cs)
  then show ?case
    by (auto split: sum.splits dest: step_slot_inv)
qed

lemma setCaps_sets_negotiated:
  assumes "setCaps dr w c = Inr (ok, w')" "\<not> negotiated (item w)" "negotiated (item w')"
  shows "ok"
  using assms
  by (auto simp: setCaps_def reset_fields
      split: if_splits option.splits sum.splits prod.splits dest!: calculate_par_keeps(2))

lemma step_negotiated_only_by_setCaps:
  assumes "step dr cr c w = Inr w'" "\<not> negotiated (item w)" "negotiated (item w')"
  shows "\<exists>cp. c = SetCaps cp \<and> setCaps dr w cp = Inr (True, w')"
proof (cases c)
  case (SetCaps cp)
  then obtain ok where r: "setCaps dr w cp = Inr (ok, w')"
    using assms(1) by (auto split: sum.splits prod.splits)
  then have "ok" using assms(2,3) by (rule setCaps_sets_negotiated)
  then show ?thesis using SetCaps r by simp
next
  case (UpdatePaintNode n r)
  then show ?thesis using assms by (auto simp: updatePaintNode_keeps)
qed (use assms in \<open>auto simp: setSink_def setBuffer_def setDAR_def setForceAspectRatio_def
       invalidateRef_def split: if_splits\<close>)

text \<open>Evaluations of the reference models.\<close>

lemma ratio_1920_1080:
  "gst_video_calculate_display_ratio 1920 1080 1 1 1 1 = Some (16, 9)"
  by code_simp

lemma ratio_1920_0:
  "gst_video_calculate_display_ratio 1920 0 1 1 1 1 = None"
  by code_simp

lemma to_guint_numerals:
  "to_guint 0 = 0" "to_guint 1 = 1" "to_guint 1920 = 1920" "to_guint 1080 = 1080"
  by (simp_all add: to_guint_def)

lemma calculate_par_degenerate:
  "par_n widget = 0 \<Longrightarrow>
   calculate_par gst_video_calculate_display_ratio widget
     \<lparr> vi_width = 1920, vi_height = 0, vi_par_n = 1, vi_par_d = 1 \<rparr> = Inr (False, widget)"
  by (simp add: calculate_par_def to_guint_numerals ratio_1920_0)

lemma run_example_unnegotiated:
  "run gst_video_calculate_display_ratio gst_video_sink_center_rect
     [SetBuffer 7, SetCaps degenerate_caps, SetBuffer 8]
     (new_QtGLVideoItemInterface (Some 0)) =
   Inr ((new_QtGLVideoItemInterface (Some 0))\<lparr>item :=
          (new_QtGLVideoItem (Some 0))\<lparr>caps := Some degenerate_caps\<rparr>\<rparr>)"
  by (simp add: new_QtGLVideoItemInterface_def new_QtGLVideoItem_def setBuffer_def setCaps_def
      degenerate_caps_def reset_def Let_def gst_buffer_replace_def calculate_par_degenerate
      DEFAULT_PAR_N_def DEFAULT_PAR_D_def DEFAULT_FORCE_ASPECT_RATIO_def)

text \<open>
  C3 (delivery before negotiation). Take any state reached by interface calls and paints
  from a state that is not negotiated and holds no buffer, as the constructor leaves it.
  If the item is attached and still not negotiated there (the flag is raised only by a
  \<^verbatim>\<open>setCaps\<close> that returns \<^verbatim>\<open>TRUE\<close>), \<^verbatim>\<open>setBuffer\<close> takes its
  not-negotiated path: the buffer is dropped, the state is unchanged, and the current
  buffer is still none.
\<close>

theorem setBuffer_before_negotiation:
  assumes "\<not> negotiated (item w0)" "buffer (item w0) = None"
    and "run dr cr cs w0 = Inr w"
    and "\<not> negotiated (item w)" "qt_item w = ItemPtr"
  shows "setBuffer w b = (NotNegotiated, w) \<and> buffer (item w) = None"
proof -
  have "slot_inv w0" using assms(2) by (simp add: slot_inv_def)
  then have "slot_inv w" using assms(3) by (rule run_slot_inv [rotated])
  then show ?thesis using assms(4,5) by (simp add: slot_inv_def setBuffer_def)
qed

theorem setBuffer_before_negotiation_witness:
  "\<not> negotiated (item (new_QtGLVideoItemInterface (Some 0))) \<and>
   buffer (item (new_QtGLVideoItemInterface (Some 0))) = None \<and>
   run gst_video_calculate_display_ratio gst_video_sink_center_rect
     [SetBuffer 7, SetCaps degenerate_caps, SetBuffer 8]
     (new_QtGLVideoItemInterface (Some 0)) =
   Inr ((new_QtGLVideoItemInterface (Some 0))\<lparr>item :=
          (new_QtGLVideoItem (Some 0))\<lparr>caps := Some degenerate_caps\<rparr>\<rparr>) \<and>
   fst (setBuffer ((new_QtGLVideoItemInterface (Some 0))\<lparr>item :=
          (new_QtGLVideoItem (Some 0))\<lparr>caps := Some degenerate_caps\<rparr>\<rparr>) 9) = NotNegotiated"
proof -
  let ?init = "new_QtGLVideoItemInterface (Some 0)"
  let ?fin = "?init\<lparr>item := (new_QtGLVideoItem (Some 0))\<lparr>caps := Some degenerate_caps\<rparr>\<rparr>"
  have h1: "\<not> negotiated (item ?init)" and h2: "buffer (item ?init) = None"
    by (simp_all add: new_QtGLVideoItemInterface_def new_QtGLVideoItem_def)
  have h4: "\<not> negotiated (item ?fin)" and h5: "qt_item ?fin = ItemPtr"
    by (simp_all add: new_QtGLVideoItemInterface_def new_QtGLVideoItem_def)
  show ?thesis
    using h1 h2 run_example_unnegotiated
      setBuffer_before_negotiation [OF h1 h2 run_example_unnegotiated h4 h5, of 9]
    by simp
qed

lemma deliver_all_ready:
  "qt_item w = ItemPtr \<Longrightarrow> negotiated (item w) \<Longrightarrow>
   qt_item (deliver_all w fs) = ItemPtr \<and> negotiated (item (deliver_all w fs))"
  by (induction fs arbitrary: w) (simp_all add: setBuffer_def)

lemma deliver_all_snoc:
  "deliver_all w (fs @ [f]) = snd (setBuffer (deliver_all w fs) f)"
  by (induction fs arbitrary: w) simp_all

text \<open>
  C7 (single slot). On an attached, negotiated item, after any deliveries \<open>fs\<close> followed
  by the delivery of \<open>f\<close> the current buffer is \<open>f\<close>. That last delivery does to the
  reference counts what \<^verbatim>\<open>gst_buffer_replace\<close> does: when the slot held another
  buffer \<open>old\<close>, it references \<open>f\<close> and unreferences \<open>old\<close>.
\<close>

theorem setBuffer_single_slot:
  assumes att: "qt_item w = ItemPtr" and neg: "negotiated (item w)"
  shows "buffer (item (deliver_all w (fs @ [f]))) = Some f \<and>
         ref_log (item (deliver_all w (fs @ [f]))) =
           ref_log (item (deliver_all w fs)) @
             gst_buffer_replace (buffer (item (deliver_all w fs))) (Some f) \<and>
         (\<forall>old. buffer (item (deliver_all w fs)) = Some old \<and> old \<noteq> f \<longrightarrow>
            ref_log (item (deliver_all w (fs @ [f]))) =
              ref_log (item (deliver_all w fs)) @ [Ref f, Unref old])"
proof -
  let ?w = "deliver_all w fs"
  have r: "qt_item ?w = ItemPtr" "negotiated (item ?w)"
    using deliver_all_ready [OF att neg] by simp_all
  show ?thesis
    by (simp add: deliver_all_snoc setBuffer_delivered [OF r] gst_buffer_replace_def)
qed

theorem setBuffer_single_slot_witness:
  "qt_item example_interface = ItemPtr \<and> negotiated (item example_interface) \<and>
   buffer (item (deliver_all example_interface ([2, 3] @ [4]))) = Some 4"
proof -
  have h1: "qt_item example_interface = ItemPtr"
    and h2: "negotiated (item example_interface)"
    by (simp_all add: example_interface_def example_item_def)
  show ?thesis
    using h1 h2 setBuffer_single_slot [OF h1 h2, of "[2, 3]" 4] by simp
qed

lemma run_detached:
  "qt_item w = NULL \<Longrightarrow> list_all producer_call cs \<Longrightarrow> run dr cr cs w = Inr w"
proof (induction cs)
  case Nil
  then show ?case by simp
next
  case (Cons c cs)
  then show ?case
    by (cases c) (simp_all add: setSink_def setBuffer_def setCaps_def setDAR_def setForceAspectRatio_def)
qed

text \<open>
  C8 (detached calls). After \<^verbatim>\<open>invalidateRef\<close> the item itself is untouched, and every
  call through the interface leaves the whole state as it is: \<^verbatim>\<open>setBuffer\<close> ignores the
  buffer, \<^verbatim>\<open>setCaps\<close> returns \<^verbatim>\<open>FALSE\<close>, \<^verbatim>\<open>setSink\<close>, \<^verbatim>\<open>setDAR\<close> and
  \<^verbatim>\<open>setForceAspectRatio\<close> do nothing, the context and display queries return
  \<^verbatim>\<open>NULL\<close>, and so does any sequence of such calls.
\<close>

theorem detached_noop:
  "setBuffer (invalidateRef w) b = (Detached, invalidateRef w) \<and>
   setCaps dr (invalidateRef w) c = Inr (False, invalidateRef w) \<and>
   setSink (invalidateRef w) snk = invalidateRef w \<and>
   getQtContext (invalidateRef w) = None \<and>
   getContext (invalidateRef w) = None \<and>
   getDisplay (invalidateRef w) = None \<and>
   setDAR (invalidateRef w) num den = invalidateRef w \<and>
   getDAR (invalidateRef w) = None \<and>
   setForceAspectRatio (invalidateRef w) far = invalidateRef w \<and>
   getForceAspectRatio (invalidateRef w) = False \<and>
   item (invalidateRef w) = item w \<and>
   (list_all producer_call cs \<longrightarrow> run dr cr cs (invalidateRef w) = Inr (invalidateRef w))"
proof -
  have n: "qt_item (invalidateRef w) = NULL" by (simp add: invalidateRef_def)
  have i: "item (invalidateRef w) = item w" by (simp add: invalidateRef_def)
  show ?thesis
    using run_detached [OF n, of cs dr cr]
    by (simp add: n i setBuffer_def setCaps_def setSink_def getQtContext_def getContext_def
        getDisplay_def setDAR_def getDAR_def setForceAspectRatio_def getForceAspectRatio_def)
qed

theorem detached_noop_witness:
  "list_all producer_call [SetBuffer 5, SetCaps example_caps, SetSink None] \<and>
   run gst_video_calculate_display_ratio gst_video_sink_center_rect
     [SetBuffer 5, SetCaps example_caps, SetSink None] (invalidateRef example_interface) =
   Inr (invalidateRef example_interface) \<and>
   setBuffer (invalidateRef example_interface) 5 = (Detached, invalidateRef example_interface)"
proof -
  have h: "list_all producer_call [SetBuffer 5, SetCaps example_caps, SetSink None]"
    by simp
  show ?thesis
    using h detached_noop [of example_interface 5 gst_video_calculate_display_ratio
        example_caps None 0 0 False "[SetBuffer 5, SetCaps example_caps, SetSink None]"
        gst_video_sink_center_rect]
    by simp
qed

text \<open>
  C9 (same caps). On an attached item, \<^verbatim>\<open>setCaps\<close> with fixed caps equal to the caps the
  item holds returns \<^verbatim>\<open>TRUE\<close> at once and leaves the whole state unchanged: the
  current buffer, both queues and the display geometry included.
\<close>

theorem setCaps_same_caps_noop:
  assumes "qt_item w = ItemPtr" "caps_is_fixed c" "caps (item w) = Some c"
  shows "setCaps dr w c = Inr (True, w)"
  using assms by (simp add: setCaps_def)

theorem setCaps_same_caps_noop_witness:
  "qt_item example_interface = ItemPtr \<and> caps_is_fixed example_caps \<and>
   caps (item example_interface) = Some example_caps \<and>
   setCaps gst_video_calculate_display_ratio example_interface example_caps =
     Inr (True, example_interface)"
proof -
  have h1: "qt_item example_interface = ItemPtr"
    and h3: "caps (item example_interface) = Some example_caps"
    by (simp_all add: example_interface_def example_item_def)
  have h2: "caps_is_fixed example_caps"
    by (simp add: example_caps_def)
  show ?thesis
    using h1 h2 h3 setCaps_same_caps_noop [OF h1 h2 h3, of gst_video_calculate_display_ratio]
    by simp
qed

text \<open>
  C2, amended (renegotiation failing on the display ratio). \<^verbatim>\<open>setCaps\<close> resets the item
  before it computes the ratio. When \<^verbatim>\<open>_calculate_par\<close> then fails, \<^verbatim>\<open>setCaps\<close>
  returns \<^verbatim>\<open>FALSE\<close> and the item is left reset: no current buffer, both queues
  empty, every buffer they held unreferenced once, \<open>negotiated\<close> false, so that every
  later delivery is dropped. The display size and the stored video info are the ones
  of before.
\<close>

theorem setCaps_invalid_ratio_resets:
  assumes "qt_item w = ItemPtr" "caps_is_fixed c" "caps (item w) \<noteq> Some c"
    and "caps_video_info c = Some vi"
    and "calculate_par dr ((reset (item w))\<lparr>caps := Some c\<rparr>) vi = Inr (False, it')"
  shows "\<exists>w'. setCaps dr w c = Inr (False, w') \<and>
     buffer (item w') = None \<and> \<not> negotiated (item w') \<and>
     bound_buffers (item w') = [] \<and> potentially_unbound_buffers (item w') = [] \<and>
     ref_log (item w') = ref_log (item w) @ gst_buffer_replace (buffer (item w)) None @
       map Unref (potentially_unbound_buffers (item w)) @ map Unref (bound_buffers (item w)) \<and>
     display_width (item w') = display_width (item w) \<and>
     display_height (item w') = display_height (item w) \<and>
     v_info (item w') = v_info (item w) \<and>
     (\<forall>b. setBuffer w' b = (NotNegotiated, w'))"
proof -
  have it': "it' = (reset (item w))\<lparr>caps := Some c\<rparr>"
    using assms(5) by (rule calculate_par_fail_keeps)
  have "setCaps dr w c = Inr (False, w\<lparr>item := it'\<rparr>)"
    using assms by (simp add: setCaps_def)
  then show ?thesis
    using assms(1) by (simp add: it' reset_fields setBuffer_def)
qed

theorem setCaps_invalid_ratio_resets_witness:
  "qt_item example_tracking = ItemPtr \<and> caps_is_fixed degenerate_caps \<and>
   caps (item example_tracking) \<noteq> Some degenerate_caps \<and>
   caps_video_info degenerate_caps =
     Some \<lparr> vi_width = 1920, vi_height = 0, vi_par_n = 1, vi_par_d = 1 \<rparr> \<and>
   calculate_par gst_video_calculate_display_ratio
     ((reset (item example_tracking))\<lparr>caps := Some degenerate_caps\<rparr>)
     \<lparr> vi_width = 1920, vi_height = 0, vi_par_n = 1, vi_par_d = 1 \<rparr> =
     Inr (False, (reset (item example_tracking))\<lparr>caps := Some degenerate_caps\<rparr>) \<and>
   (\<exists>w'. setCaps gst_video_calculate_display_ratio example_tracking degenerate_caps =
            Inr (False, w') \<and>
         buffer (item w') = None \<and> \<not> negotiated (item w') \<and>
         bound_buffers (item w') = [] \<and> potentially_unbound_buffers (item w') = [] \<and>
         display_width (item w') = 1920 \<and> display_height (item w') = 1080)"
proof -
  have h1: "qt_item example_tracking = ItemPtr"
    by (simp add: example_tracking_def)
  have h2: "caps_is_fixed degenerate_caps"
    by (simp add: degenerate_caps_def)
  have h3: "caps (item example_tracking) \<noteq> Some degenerate_caps"
    by (simp add: example_tracking_def example_item_def example_caps_def degenerate_caps_def)
  have h4: "caps_video_info degenerate_caps =
      Some \<lparr> vi_width = 1920, vi_height = 0, vi_par_n = 1, vi_par_d = 1 \<rparr>"
    by (simp add: degenerate_caps_def)
  have p: "par_n ((reset (item example_tracking))\<lparr>caps := Some degenerate_caps\<rparr>) = 0"
    by (simp add: reset_def Let_def unref_queue_eq example_tracking_def example_item_def
        split: prod.splits)
  have h5: "calculate_par gst_video_calculate_display_ratio
     ((reset (item example_tracking))\<lparr>caps := Some degenerate_caps\<rparr>)
     \<lparr> vi_width = 1920, vi_height = 0, vi_par_n = 1, vi_par_d = 1 \<rparr> =
     Inr (False, (reset (item example_tracking))\<lparr>caps := Some degenerate_caps\<rparr>)"
    using p by (rule calculate_par_degenerate)
  have d: "display_width (item example_tracking) = 1920"
      "display_height (item example_tracking) = 1080"
    by (simp_all add: example_tracking_def example_item_def)
  show ?thesis
    using h1 h2 h3 h4 h5 setCaps_invalid_ratio_resets [OF h1 h2 h3 h4 h5] d
    by auto
qed

text \<open>
  A renegotiation that fails in \<^verbatim>\<open>_calculate_par\<close> does not retain the state it found.
  The item below holds buffer 4, with buffer 3 bound and buffer 2 potentially unbound,
  under caps of a 1920x1080 stream; \<^verbatim>\<open>setCaps\<close> with caps of height zero returns
  \<^verbatim>\<open>FALSE\<close> and leaves no current buffer, empty queues and the new caps.
\<close>

theorem setCaps_invalid_ratio_counterexample:
  "setCaps gst_video_calculate_display_ratio example_tracking degenerate_caps =
     Inr (False, example_tracking\<lparr>item := (item example_tracking)\<lparr>
            buffer := None, caps := Some degenerate_caps, negotiated := False,
            bound_buffers := [], potentially_unbound_buffers := [],
            ref_log := [Unref 4, Unref 2, Unref 3]\<rparr>\<rparr>) \<and>
   buffer (item example_tracking) = Some 4 \<and>
   caps (item example_tracking) = Some example_caps \<and>
   bound_buffers (item example_tracking) = [3] \<and>
   potentially_unbound_buffers (item example_tracking) = [2]"
  by (simp add: setCaps_def example_tracking_def example_item_def degenerate_caps_def
      example_caps_def reset_def Let_def gst_buffer_replace_def calculate_par_degenerate)

section \<open>Geometry: proofs\<close>

lemma to_guint_id: "0 \<le> v \<Longrightarrow> v < 2 ^ 32 \<Longrightarrow> to_guint v = v"
  by (simp add: to_guint_def)

lemma to_gint_id: "- (2 ^ 31) \<le> v \<Longrightarrow> v < 2 ^ 31 \<Longrightarrow> to_gint v = v"
  by (simp add: to_gint_def)

lemma to_guint64_id: "0 \<le> v \<Longrightarrow> v < 2 ^ 64 \<Longrightarrow> to_guint64 v = v"
  by (simp add: to_guint64_def)

lemma scale_exact:
  assumes "0 \<le> v" "v < 2 ^ 31" "0 < n" "n < 2 ^ 31" "0 < d" "d < 2 ^ 31"
  shows "gst_util_uint64_scale_int (to_guint64 v) (to_gint n) (to_gint d) = v * n div d"
proof -
  have "v * n \<le> (2 ^ 31 - 1) * (2 ^ 31 - 1)"
    using assms(1,2,3,4) by (intro mult_mono) simp_all
  then have p: "v * n < 2 ^ 64" by simp
  have "v * n div d \<le> v * n div 1"
    using assms(1,3,5) by (intro zdiv_mono2) simp_all
  then have q: "v * n div d < 2 ^ 64" using p by simp
  show ?thesis
    using assms q by (simp add: to_guint64_id to_gint_id gst_util_uint64_scale_int_def G_MAXUINT64_def)
qed

lemma to_gint_to_guint_id: "0 \<le> v \<Longrightarrow> v < 2 ^ 31 \<Longrightarrow> to_gint (to_guint v) = v"
  by (simp add: to_guint_id to_gint_id)

lemma ratio_par_2000000:
  "gst_video_calculate_display_ratio 1920 1080 2000000 1 1 1 = Some (32000000, 9)"
  by code_simp

text \<open>
  C4, amended (display size). For a stream of non-negative width \<open>w\<close> and height \<open>h\<close>
  and a display ratio \<open>num/den\<close> with the positive \<^verbatim>\<open>gint\<close> terms the library returns,
  \<^verbatim>\<open>_calculate_par\<close> succeeds and chooses as follows: when \<open>den\<close> divides \<open>h\<close>, the
  height is \<open>h\<close> and the width is \<open>h * num / den\<close>; else when \<open>num\<close> divides \<open>w\<close>, the
  width is \<open>w\<close> and the height is \<open>w * den / num\<close>; else the height is \<open>h\<close> and the
  width is \<open>h * num / den\<close>. The scaled size is stored through the cast to \<^verbatim>\<open>guint\<close>
  into a \<^verbatim>\<open>gint\<close>: it is the value reduced to 32 bits, which is the value itself
  whenever that is below \<open>2^31\<close>.
\<close>

theorem calculate_par_display_size:
  assumes w: "0 \<le> vi_width info" "vi_width info < 2 ^ 31"
    and h: "0 \<le> vi_height info" "vi_height info < 2 ^ 31"
    and dr: "dr (to_guint (vi_width info)) (to_guint (vi_height info))
               (to_guint (if vi_par_n info = 0 then 1 else vi_par_n info))
               (to_guint (vi_par_d info))
               (to_guint (if par_n widget \<noteq> 0 \<and> par_d widget \<noteq> 0 then par_n widget else 1))
               (to_guint (if par_n widget \<noteq> 0 \<and> par_d widget \<noteq> 0 then par_d widget else 1))
             = Some (num, den)"
    and num: "0 < num" "num < 2 ^ 31" and den: "0 < den" "den < 2 ^ 31"
  shows "calculate_par dr widget info =
     Inr (True, widget\<lparr>
       implicitWidth := vi_width info, implicitHeight := vi_height info,
       display_width :=
         (if vi_height info mod den = 0 then to_gint (to_guint (vi_height info * num div den))
          else if vi_width info mod num = 0 then vi_width info
          else to_gint (to_guint (vi_height info * num div den))),
       display_height :=
         (if vi_height info mod den = 0 then vi_height info
          else if vi_width info mod num = 0 then to_gint (to_guint (vi_width info * den div num))
          else vi_height info)\<rparr>) \<and>
     (vi_height info * num div den < 2 ^ 31 \<longrightarrow>
        to_gint (to_guint (vi_height info * num div den)) = vi_height info * num div den) \<and>
     (vi_width info * den div num < 2 ^ 31 \<longrightarrow>
        to_gint (to_guint (vi_width info * den div num)) = vi_width info * den div num)"
proof -
  have gn: "to_guint num = num" and gd: "to_guint den = den"
    and gw: "to_guint (vi_width info) = vi_width info"
    and gh: "to_guint (vi_height info) = vi_height info"
    using w h num den by (simp_all add: to_guint_id)
  have sh: "gst_util_uint64_scale_int (to_guint64 (vi_height info)) (to_gint num) (to_gint den) =
      vi_height info * num div den"
    using h num den by (rule scale_exact)
  have sw: "gst_util_uint64_scale_int (to_guint64 (vi_width info)) (to_gint den) (to_gint num) =
      vi_width info * den div num"
    using w den num by (rule scale_exact)
  have qh: "0 \<le> vi_height info * num div den"
    using h(1) num(1) den(1) by (simp add: pos_imp_zdiv_nonneg_iff)
  have qw: "0 \<le> vi_width info * den div num"
    using w(1) num(1) den(1) by (simp add: pos_imp_zdiv_nonneg_iff)
  have c: "calculate_par dr widget info =
     Inr (True, widget\<lparr>
       implicitWidth := vi_width info, implicitHeight := vi_height info,
       display_width :=
         (if vi_height info mod den = 0 then to_gint (to_guint (vi_height info * num div den))
          else if vi_width info mod num = 0 then vi_width info
          else to_gint (to_guint (vi_height info * num div den))),
       display_height :=
         (if vi_height info mod den = 0 then vi_height info
          else if vi_width info mod num = 0 then to_gint (to_guint (vi_width info * den div num))
          else vi_height info)\<rparr>)"
  proof (cases "vi_par_n info = 0"; cases "par_n widget = 0"; cases "par_d widget = 0")
  qed (use num(1) den(1) dr in
        \<open>simp_all add: calculate_par_def Let_def gn gd gw gh sh sw\<close>)
  show ?thesis
    using c qh qw by (simp add: to_gint_to_guint_id)
qed

theorem calculate_par_display_size_witness:
  "calculate_par gst_video_calculate_display_ratio example_item
     \<lparr> vi_width = 1920, vi_height = 1080, vi_par_n = 1, vi_par_d = 1 \<rparr> =
   Inr (True, example_item\<lparr>implicitWidth := 1920, implicitHeight := 1080,
                            display_width := 1920, display_height := 1080\<rparr>)"
proof -
  let ?info = "\<lparr> vi_width = 1920, vi_height = 1080, vi_par_n = 1, vi_par_d = 1 \<rparr>"
  have w: "0 \<le> vi_width ?info" "vi_width ?info < 2 ^ 31"
    and h: "0 \<le> vi_height ?info" "vi_height ?info < 2 ^ 31"
    by simp_all
  have dr: "gst_video_calculate_display_ratio
               (to_guint (vi_width ?info)) (to_guint (vi_height ?info))
               (to_guint (if vi_par_n ?info = 0 then 1 else vi_par_n ?info))
               (to_guint (vi_par_d ?info))
               (to_guint (if par_n example_item \<noteq> 0 \<and> par_d example_item \<noteq> 0
                          then par_n example_item else 1))
               (to_guint (if par_n example_item \<noteq> 0 \<and> par_d example_item \<noteq> 0
                          then par_d example_item else 1))
             = Some (16, 9)"
    by (simp add: example_item_def to_guint_numerals ratio_1920_1080)
  have num: "(0::int) < 16" "(16::int) < 2 ^ 31" and den: "(0::int) < 9" "(9::int) < 2 ^ 31"
    by simp_all
  have e: "to_gint (to_guint 1920) = 1920"
    by (simp add: to_gint_def to_guint_def)
  show ?thesis
    using calculate_par_display_size
        [where info = ?info and dr = gst_video_calculate_display_ratio
           and widget = example_item and num = 16 and den = 9,
         OF w h dr num den]
    by (simp add: e)
qed

text \<open>
  The scaled width does not always fit: for a 1920x1080 stream with a pixel aspect ratio
  of 2000000/1 the display ratio is 32000000/9, 9 divides 1080, and
  \<open>1080 * 32000000 / 9 = 3840000000\<close> is stored as \<open>-454967296\<close>.
\<close>

theorem calculate_par_display_size_counterexample:
  "gst_video_calculate_display_ratio 1920 1080 2000000 1 1 1 = Some (32000000, 9) \<and>
   (1080 :: int) mod 9 = 0 \<and>
   (1080 :: int) * 32000000 div 9 = 3840000000 \<and>
   calculate_par gst_video_calculate_display_ratio example_item
     \<lparr> vi_width = 1920, vi_height = 1080, vi_par_n = 2000000, vi_par_d = 1 \<rparr> =
   Inr (True, example_item\<lparr>implicitWidth := 1920, implicitHeight := 1080,
                            display_width := - 454967296, display_height := 1080\<rparr>)"
proof -
  have g: "to_guint 2000000 = 2000000" "to_guint 32000000 = 32000000" "to_guint 9 = 9"
      "to_gint 32000000 = 32000000" "to_gint 9 = 9" "to_guint64 1080 = 1080"
    by (simp_all add: to_guint_def to_gint_def to_guint64_def)
  have s: "gst_util_uint64_scale_int 1080 32000000 9 = 3840000000"
    by (simp add: gst_util_uint64_scale_int_def G_MAXUINT64_def)
  have t: "to_gint (to_guint 3840000000) = - 454967296"
    by (simp add: to_gint_def to_guint_def)
  have p: "par_n example_item = 0"
    by (simp add: example_item_def)
  show ?thesis
    by (simp add: ratio_par_2000000 calculate_par_def Let_def p to_guint_numerals g s t)
qed

lemma CLAMP_range: "0 \<le> hi \<Longrightarrow> 0 \<le> CLAMP x 0 hi \<and> CLAMP x 0 hi \<le> hi"
  by (simp add: CLAMP_def)

lemma center_rect_example:
  "gst_video_sink_center_rect
     \<lparr> rect_x = 0, rect_y = 0, rect_w = 1920, rect_h = 1080 \<rparr>
     \<lparr> rect_x = 0, rect_y = 0, rect_w = 800, rect_h = 800 \<rparr> =
   \<lparr> rect_x = 0, rect_y = 175, rect_w = 800, rect_h = 450 \<rparr>"
  by (simp add: gst_video_sink_center_rect_def double_to_gint_def Let_def)

lemma fit_example:
  "fitStreamToAllocatedSize gst_video_sink_center_rect example_item (800, 800) =
     \<lparr> rect_x = 0, rect_y = 175, rect_w = 800, rect_h = 450 \<rparr>"
  by (simp add: fitStreamToAllocatedSize_def example_item_def double_to_gint_def
      center_rect_example)

text \<open>
  C6 (corners of the destination rectangle). For a stream of non-negative width and
  height and a destination rectangle, as \<^verbatim>\<open>fitStreamToAllocatedSize\<close> computes it,
  of positive width and height, \<^verbatim>\<open>mapPointToStreamSize\<close> maps the four corners of the
  rectangle to \<open>(0, 0)\<close>, \<open>(stream_width, 0)\<close>, \<open>(0, stream_height)\<close> and
  \<open>(stream_width, stream_height)\<close>.
\<close>

theorem mapPointToStreamSize_corners:
  assumes "0 \<le> vi_width (v_info it)" "0 \<le> vi_height (v_info it)"
    and "res = fitStreamToAllocatedSize cr it sz"
    and "rect_w res > 0" "rect_h res > 0"
  shows "mapPointToStreamSize cr it sz (real_of_int (rect_x res), real_of_int (rect_y res)) = (0, 0) \<and>
         mapPointToStreamSize cr it sz
           (real_of_int (rect_x res + rect_w res), real_of_int (rect_y res)) =
           (real_of_int (vi_width (v_info it)), 0) \<and>
         mapPointToStreamSize cr it sz
           (real_of_int (rect_x res), real_of_int (rect_y res + rect_h res)) =
           (0, real_of_int (vi_height (v_info it))) \<and>
         mapPointToStreamSize cr it sz
           (real_of_int (rect_x res + rect_w res), real_of_int (rect_y res + rect_h res)) =
           (real_of_int (vi_width (v_info it)), real_of_int (vi_height (v_info it)))"
  using assms
  by (simp add: mapPointToStreamSize_def Let_def CLAMP_def)

theorem mapPointToStreamSize_corners_witness:
  "0 \<le> vi_width (v_info example_item) \<and> 0 \<le> vi_height (v_info example_item) \<and>
   fitStreamToAllocatedSize gst_video_sink_center_rect example_item (800, 800) =
     \<lparr> rect_x = 0, rect_y = 175, rect_w = 800, rect_h = 450 \<rparr> \<and>
   mapPointToStreamSize gst_video_sink_center_rect example_item (800, 800) (0, 175) = (0, 0) \<and>
   mapPointToStreamSize gst_video_sink_center_rect example_item (800, 800) (800, 175) = (1920, 0) \<and>
   mapPointToStreamSize gst_video_sink_center_rect example_item (800, 800) (0, 625) = (0, 1080) \<and>
   mapPointToStreamSize gst_video_sink_center_rect example_item (800, 800) (800, 625) =
     (1920, 1080)"
proof -
  let ?res = "\<lparr> rect_x = 0, rect_y = 175, rect_w = 800, rect_h = 450 \<rparr>"
  have h1: "0 \<le> vi_width (v_info example_item)" and h2: "0 \<le> vi_height (v_info example_item)"
    by (simp_all add: example_item_def)
  have h3: "?res = fitStreamToAllocatedSize gst_video_sink_center_rect example_item (800, 800)"
    by (simp add: fit_example)
  have h4: "rect_w ?res > 0" and h5: "rect_h ?res > 0"
    by simp_all
  have v: "vi_width (v_info example_item) = 1920" "vi_height (v_info example_item) = 1080"
    by (simp_all add: example_item_def)
  show ?thesis
    using h1 h2 fit_example mapPointToStreamSize_corners [OF h1 h2 h3 h4 h5]
    by (simp add: v)
qed

text \<open>
  C10 (guarded mapping). For a stream of non-negative width and height and every point:
  when the destination rectangle has no positive width the stream x coordinate is 0,
  when it has no positive height the stream y coordinate is 0 (nothing is divided by
  zero), and in all cases the result lies between 0 and the stream width, and between 0
  and the stream height.
\<close>

theorem mapPointToStreamSize_guarded:
  assumes "0 \<le> vi_width (v_info it)" "0 \<le> vi_height (v_info it)"
  shows "(rect_w (fitStreamToAllocatedSize cr it sz) \<le> 0 \<longrightarrow>
            fst (mapPointToStreamSize cr it sz pos) = 0) \<and>
         (rect_h (fitStreamToAllocatedSize cr it sz) \<le> 0 \<longrightarrow>
            snd (mapPointToStreamSize cr it sz pos) = 0) \<and>
         0 \<le> fst (mapPointToStreamSize cr it sz pos) \<and>
         fst (mapPointToStreamSize cr it sz pos) \<le> real_of_int (vi_width (v_info it)) \<and>
         0 \<le> snd (mapPointToStreamSize cr it sz pos) \<and>
         snd (mapPointToStreamSize cr it sz pos) \<le> real_of_int (vi_height (v_info it))"
  using assms
  by (simp add: mapPointToStreamSize_def Let_def CLAMP_def)

theorem mapPointToStreamSize_guarded_witness:
  "0 \<le> vi_width (v_info (example_item\<lparr>force_aspect_ratio := False\<rparr>)) \<and>
   0 \<le> vi_height (v_info (example_item\<lparr>force_aspect_ratio := False\<rparr>)) \<and>
   rect_w (fitStreamToAllocatedSize gst_video_sink_center_rect
             (example_item\<lparr>force_aspect_ratio := False\<rparr>) (0, 600)) \<le> 0 \<and>
   mapPointToStreamSize gst_video_sink_center_rect
     (example_item\<lparr>force_aspect_ratio := False\<rparr>) (0, 600) (900, 700) = (0, 1080)"
proof -
  let ?it = "example_item\<lparr>force_aspect_ratio := False\<rparr>"
  have h1: "0 \<le> vi_width (v_info ?it)" and h2: "0 \<le> vi_height (v_info ?it)"
    by (simp_all add: example_item_def)
  have z: "fitStreamToAllocatedSize gst_video_sink_center_rect ?it (0, 600) =
      \<lparr> rect_x = 0, rect_y = 0, rect_w = 0, rect_h = 600 \<rparr>"
    by (simp add: fitStreamToAllocatedSize_def double_to_gint_def)
  have v: "vi_width (v_info example_item) = 1920" "vi_height (v_info example_item) = 1080"
    by (simp_all add: example_item_def)
  have y: "snd (mapPointToStreamSize gst_video_sink_center_rect ?it (0, 600) (900, 700)) = 1080"
    by (simp add: mapPointToStreamSize_def z Let_def CLAMP_def v)
  show ?thesis
    using h1 h2 y
      mapPointToStreamSize_guarded [OF h1 h2, of gst_video_sink_center_rect "(0, 600)" "(900, 700)"]
    by (simp add: z prod_eq_iff)
qed

end
